theory Spec2Isabelle
  imports Complex_Main
begin

section \<open>Values shared by the components\<close>

text \<open>
  A JavaScript exception is a value of the result type: a handler returns either the
  error it threw or the list of calls it made, in order. The callbacks and DOM methods a
  handler calls (\<^verbatim>\<open>onTokenRemove\<close>, \<^verbatim>\<open>focus\<close>, \<^verbatim>\<open>preventDefault\<close>, \<^verbatim>\<open>dispatchEvent\<close>) are supplied
  from outside, so what they do is unknown; the model records each call with its
  arguments.
\<close>

datatype js_error = TypeError

text \<open>A token id is \<^verbatim>\<open>string | number\<close>.\<close>

datatype token_id = IdString string | IdNumber real

text \<open>
  \<^verbatim>\<open>interface Token { text?: string; id: string | number }\<close>. The field names carry a
  prefix, since \<open>text\<close> is a keyword and \<open>id\<close> a constant of HOL.
\<close>

record token =
  token_text :: "string option"
  token_id :: token_id

text \<open>A DOM element, identified by a number.\<close>

datatype element = Element nat

text \<open>
  The initialiser of \<^verbatim>\<open>new KeyboardEvent(type, init)\<close> is the native event of the
  browser; it is kept as the data the handlers read.
\<close>

record native_event =
  native_type :: string
  native_key :: string

text \<open>The event built by \<^verbatim>\<open>new KeyboardEvent(type, eventInitDict)\<close>.\<close>

datatype dom_event = KeyboardEvent string native_event

text \<open>The element an event is delivered to; \<open>el_value\<close> is its \<^verbatim>\<open>value\<close> property.\<close>

record event_target =
  el_value :: string

text \<open>React's synthetic keyboard event, with the properties the handlers read.\<close>

record keyboard_event =
  event_type :: string
  key :: string
  currentTarget :: event_target
  nativeEvent :: native_event

datatype effect =
    OnTokenRemove token_id
  | Focus element
  | PreventDefault
  | StopImmediatePropagation
  | DispatchEvent element dom_event

text \<open>
  \<^verbatim>\<open>xs[i]\<close> on a JavaScript array: \<^verbatim>\<open>undefined\<close> (here \<open>None\<close>) when \<open>i\<close> is not an
  index of the array, also when it is negative.
\<close>

definition js_index :: "'a list \<Rightarrow> int \<Rightarrow> 'a option" where
  "js_index xs i = (if 0 \<le> i \<and> i < int (length xs) then Some (xs ! nat i) else None)"

text \<open>A string is truthy exactly when it is not empty.\<close>

definition truthy_string :: "string \<Rightarrow> bool" where
  "truthy_string s = (s \<noteq> [])"

section \<open>TextInputWithTokens: the keyboard handlers\<close>

text \<open>
  \<^verbatim>\<open>
  const handleInputKeyUp: KeyboardEventHandler = (e) => {
    if (e.currentTarget.value) { return; }
    const lastToken = tokens[tokens.length - 1];
    if (e.key === 'Backspace') { onTokenRemove(lastToken.id); }
  };
  \<close>
  Reading \<^verbatim>\<open>lastToken.id\<close> when \<^verbatim>\<open>lastToken\<close> is \<^verbatim>\<open>undefined\<close> throws a TypeError.
\<close>

definition handleInputKeyUp :: "token list \<Rightarrow> keyboard_event \<Rightarrow> js_error + effect list" where
  "handleInputKeyUp tokens e =
     (if truthy_string (el_value (currentTarget e)) then Inr []
      else
        let lastToken = js_index tokens (int (length tokens) - 1)
        in if key e = ''Backspace''
           then (case lastToken of
                   None \<Rightarrow> Inl TypeError
                 | Some t \<Rightarrow> Inr [OnTokenRemove (token_id t)])
           else Inr [])"

text \<open>
  \<^verbatim>\<open>
  const handleTokenKeyUp = (tokenId) => (e) => {
    if (e.key === 'Backspace') { onTokenRemove(tokenId); }
    if (e.key === 'Escape') { combinedInputRef?.current?.focus(); }
  };
  \<close>
  \<open>inputRef\<close> is \<^verbatim>\<open>combinedInputRef.current\<close>: the text input once it is mounted,
  \<open>None\<close> before. The two statements run one after the other.
\<close>

definition handleTokenKeyUp ::
  "element option \<Rightarrow> token_id \<Rightarrow> keyboard_event \<Rightarrow> js_error + effect list" where
  "handleTokenKeyUp inputRef tokenId e =
     Inr ((if key e = ''Backspace'' then [OnTokenRemove tokenId] else []) @
          (if key e = ''Escape''
           then (case inputRef of None \<Rightarrow> [] | Some input \<Rightarrow> [Focus input])
           else []))"

text \<open>
  \<^verbatim>\<open>
  event => {
    if (event.key === 'Enter' && activeDescendantRef.current) {
      event.preventDefault()
      event.nativeEvent.stopImmediatePropagation()
      const activeDescendantEvent = new KeyboardEvent(event.type, event.nativeEvent)
      activeDescendantRef.current.dispatchEvent(activeDescendantEvent)
    }
  }
  \<close>
  \<open>activeDescendant\<close> is \<^verbatim>\<open>activeDescendantRef.current\<close>, an element or \<^verbatim>\<open>undefined\<close>;
  an element is always truthy.
\<close>

definition onInputKeyPress ::
  "element option \<Rightarrow> keyboard_event \<Rightarrow> js_error + effect list" where
  "onInputKeyPress activeDescendant event =
     (if key event = ''Enter''
      then (case activeDescendant of
              Some current \<Rightarrow>
                Inr [PreventDefault, StopImmediatePropagation,
                     DispatchEvent current (KeyboardEvent (event_type event) (nativeEvent event))]
            | None \<Rightarrow> Inr [])
      else Inr [])"

section \<open>TextInputWithTokens: scrolling the active descendant into view\<close>

text \<open>
  The numbers of a bounding rectangle and of a scroll position are JavaScript numbers. The
  function only compares them and adds and subtracts them, so the model leaves the number
  type \<open>'n\<close> open: any linearly ordered type with an addition and a subtraction.
\<close>

datatype ScrollBehavior = Auto | Smooth

text \<open>The \<^verbatim>\<open>top\<close> and \<^verbatim>\<open>bottom\<close> of \<^verbatim>\<open>getBoundingClientRect()\<close>.\<close>

record 'n dom_rect =
  rect_top :: 'n
  rect_bottom :: 'n

text \<open>The argument of \<^verbatim>\<open>scrollTo\<close>: \<^verbatim>\<open>{behavior, top}\<close>.\<close>

record 'n scroll_to_options =
  behavior :: ScrollBehavior
  options_top :: 'n

text \<open>
  An element as the function sees it: its bounding rectangle, its \<^verbatim>\<open>scrollTop\<close>, and the
  \<^verbatim>\<open>scrollTo\<close> calls made on it so far, oldest first. How the browser moves
  \<^verbatim>\<open>scrollTop\<close> after a \<^verbatim>\<open>scrollTo\<close> call is not part of the component.
\<close>

record 'n html_element =
  boundingClientRect :: "'n dom_rect"
  scrollTop :: 'n
  scrollTo_calls :: "'n scroll_to_options list"

definition scrollTo :: "'n scroll_to_options \<Rightarrow> 'n html_element \<Rightarrow> 'n html_element" where
  "scrollTo options el = el\<lparr>scrollTo_calls := scrollTo_calls el @ [options]\<rparr>"

text \<open>
  \<^verbatim>\<open>
  function scrollIntoViewingArea(child, container, margin = 8, behavior = 'smooth') {
    const {top: childTop, bottom: childBottom} = child.getBoundingClientRect()
    const {top: containerTop, bottom: containerBottom} = container.getBoundingClientRect()
    const isChildTopAboveViewingArea = childTop < containerTop + margin
    const isChildBottomBelowViewingArea = childBottom > containerBottom - margin
    if (isChildTopAboveViewingArea) {
      const scrollHeightToChildTop = childTop - containerTop + container.scrollTop
      container.scrollTo({behavior, top: scrollHeightToChildTop - margin})
    } else if (isChildBottomBelowViewingArea) {
      const scrollHeightToChildBottom = childBottom - containerBottom + container.scrollTop
      container.scrollTo({behavior, top: scrollHeightToChildBottom + margin})
    }
    // either completely in view or outside viewing area on both ends, don't scroll
  }
  \<close>
  The result is the container after the call.
\<close>

definition scrollIntoViewingArea ::
  "('n::{plus,minus,linorder}) html_element \<Rightarrow> 'n html_element \<Rightarrow> 'n \<Rightarrow> ScrollBehavior
     \<Rightarrow> 'n html_element" where
  "scrollIntoViewingArea child container margin behavior' =
     (let childTop = rect_top (boundingClientRect child);
          childBottom = rect_bottom (boundingClientRect child);
          containerTop = rect_top (boundingClientRect container);
          containerBottom = rect_bottom (boundingClientRect container);
          isChildTopAboveViewingArea = childTop < containerTop + margin;
          isChildBottomBelowViewingArea = childBottom > containerBottom - margin
      in if isChildTopAboveViewingArea then
           let scrollHeightToChildTop = childTop - containerTop + scrollTop container
           in scrollTo \<lparr>behavior = behavior', options_top = scrollHeightToChildTop - margin\<rparr>
                container
         else if isChildBottomBelowViewingArea then
           let scrollHeightToChildBottom = childBottom - containerBottom + scrollTop container
           in scrollTo \<lparr>behavior = behavior', options_top = scrollHeightToChildBottom + margin\<rparr>
                container
         else container)"

text \<open>The call with the default arguments, \<^verbatim>\<open>margin = 8\<close> and \<^verbatim>\<open>behavior = 'smooth'\<close>.\<close>

definition scrollIntoViewingArea_default ::
  "('n::{numeral,minus,linorder}) html_element \<Rightarrow> 'n html_element \<Rightarrow> 'n html_element" where
  "scrollIntoViewingArea_default child container = scrollIntoViewingArea child container 8 Smooth"

section \<open>TextInputWithTokens: the component state\<close>

text \<open>
  \<^verbatim>\<open>
  const [selectedTokenIdx, setSelectedTokenIdx] = useState<number | undefined>()
  const [showMenu, setShowMenu] = React.useState(false)
  \<close>
  The updates a handler makes are applied together, before the next render.
\<close>

record component_state =
  selectedTokenIdx :: "nat option"
  showMenu :: bool

definition initial_state :: component_state where
  "initial_state = \<lparr>selectedTokenIdx = None, showMenu = False\<rparr>"

definition closeOptionList :: "component_state \<Rightarrow> component_state" where
  "closeOptionList s = s\<lparr>showMenu := False\<rparr>"

definition showOptionList :: "component_state \<Rightarrow> component_state" where
  "showOptionList s = s\<lparr>showMenu := True\<rparr>"

definition handleTokenFocus :: "nat \<Rightarrow> component_state \<Rightarrow> component_state" where
  "handleTokenFocus tokenIdx s = closeOptionList (s\<lparr>selectedTokenIdx := Some tokenIdx\<rparr>)"

definition handleTokenBlur :: "component_state \<Rightarrow> component_state" where
  "handleTokenBlur s = s\<lparr>selectedTokenIdx := None\<rparr>"

definition handleInputFocus :: "component_state \<Rightarrow> component_state" where
  "handleInputFocus s = showOptionList (s\<lparr>selectedTokenIdx := None\<rparr>)"

text \<open>
  The events the rendered tree delivers to those handlers: \<^verbatim>\<open>onFocus\<close> of the input,
  \<^verbatim>\<open>onFocus\<close> and \<^verbatim>\<open>onBlur\<close> of the token at an index, \<^verbatim>\<open>onClickOutside\<close> and
  \<^verbatim>\<open>onEscape\<close> of the overlay. The keyboard and change handlers set no state.
\<close>

datatype ui_event =
    InputFocus
  | TokenFocus nat
  | TokenBlur
  | OverlayClickOutside
  | OverlayEscape
  | InputKeyUp
  | InputKeyPress
  | InputChange
  | TokenKeyUp

fun handle :: "component_state \<Rightarrow> ui_event \<Rightarrow> component_state" where
  "handle s InputFocus = handleInputFocus s"
| "handle s (TokenFocus i) = handleTokenFocus i s"
| "handle s TokenBlur = handleTokenBlur s"
| "handle s OverlayClickOutside = closeOptionList s"
| "handle s OverlayEscape = closeOptionList s"
| "handle s InputKeyUp = s"
| "handle s InputKeyPress = s"
| "handle s InputChange = s"
| "handle s TokenKeyUp = s"

text \<open>
  What the render shows of the state: \<^verbatim>\<open>isSelected={selectedTokenIdx === i}\<close> for the
  token at index \<open>i\<close> of \<^verbatim>\<open>tokens.map\<close>, and the overlay exactly when \<^verbatim>\<open>showMenu\<close>.
\<close>

definition isSelected :: "component_state \<Rightarrow> nat \<Rightarrow> bool" where
  "isSelected s i = (selectedTokenIdx s = Some i)"

definition selected_tokens :: "component_state \<Rightarrow> 'a list \<Rightarrow> nat list" where
  "selected_tokens s tokens = filter (isSelected s) [0 ..< length tokens]"

definition overlay_shown :: "component_state \<Rightarrow> bool" where
  "overlay_shown s = showMenu s"

text \<open>The invariant: while the menu is shown, no token index is selected.\<close>

definition menu_excludes_selection :: "component_state \<Rightarrow> bool" where
  "menu_excludes_selection s = (showMenu s \<longrightarrow> selectedTokenIdx s = None)"

section \<open>Breadcrumb.Item: the computed attributes\<close>

text \<open>
  The arguments \<^verbatim>\<open>classnames\<close> receives here are \<^verbatim>\<open>false\<close>, \<^verbatim>\<open>undefined\<close> or a string.
\<close>

datatype class_arg = ArgFalse | ArgUndefined | ArgString string

text \<open>
  \<^verbatim>\<open>classnames(...)\<close> of the classnames package: a falsy argument (\<^verbatim>\<open>false\<close>,
  \<^verbatim>\<open>undefined\<close>, the empty string) is skipped, the strings that are left are joined by
  one space.
\<close>

fun truthy_classes :: "class_arg list \<Rightarrow> string list" where
  "truthy_classes [] = []"
| "truthy_classes (ArgString s # args) =
     (if truthy_string s then s # truthy_classes args else truthy_classes args)"
| "truthy_classes (ArgFalse # args) = truthy_classes args"
| "truthy_classes (ArgUndefined # args) = truthy_classes args"

fun join :: "string \<Rightarrow> string list \<Rightarrow> string" where
  "join sep [] = []"
| "join sep [x] = x"
| "join sep (x # y # ys) = x @ sep @ join sep (y # ys)"

definition classnames :: "class_arg list \<Rightarrow> string" where
  "classnames args = join '' '' (truthy_classes args)"

text \<open>
  The class names of a \<^verbatim>\<open>class\<close> attribute: the attribute's value split at ASCII
  whitespace, as \<^verbatim>\<open>classList\<close> and the selector \<^verbatim>\<open>&.selected\<close> read it.
\<close>

definition is_ascii_whitespace :: "char \<Rightarrow> bool" where
  "is_ascii_whitespace c =
     (c = CHR 0x20 \<or> c = CHR 0x09 \<or> c = CHR 0x0A \<or> c = CHR 0x0C \<or> c = CHR 0x0D)"

fun split_classes :: "string \<Rightarrow> string \<Rightarrow> string list" where
  "split_classes cur [] = (if cur = [] then [] else [cur])"
| "split_classes cur (c # cs) =
     (if is_ascii_whitespace c
      then (if cur = [] then [] else [cur]) @ split_classes [] cs
      else split_classes (cur @ [c]) cs)"

definition class_names :: "string \<Rightarrow> string list" where
  "class_names s = split_classes [] s"

definition has_class :: "string \<Rightarrow> string \<Rightarrow> bool" where
  "has_class c s = (c \<in> set (class_names s))"

definition SELECTED_CLASS :: string where
  "SELECTED_CLASS = ''selected''"

text \<open>\<^verbatim>\<open>History.LocationDescriptor\<close>: a path string or a location object.\<close>

datatype LocationDescriptor = LocationPath string | LocationObject string

text \<open>
  \<^verbatim>\<open>
  type StyledBreadcrumbItemProps = { to?: History.LocationDescriptor; selected?: boolean } & ...
  \<close>
  with the \<^verbatim>\<open>className\<close> the caller may pass.
\<close>

record breadcrumb_item_props =
  to :: "LocationDescriptor option"
  selected :: "bool option"
  className :: "string option"

record breadcrumb_item_attrs =
  activeClassName :: string
  attrs_className :: string
  aria_current :: "string option"

text \<open>\<^verbatim>\<open>props.selected && SELECTED_CLASS\<close>.\<close>

definition selected_and_class :: "bool option \<Rightarrow> class_arg" where
  "selected_and_class sel =
     (case sel of
        None \<Rightarrow> ArgUndefined
      | Some False \<Rightarrow> ArgFalse
      | Some True \<Rightarrow> ArgString SELECTED_CLASS)"

definition className_arg :: "string option \<Rightarrow> class_arg" where
  "className_arg c = (case c of None \<Rightarrow> ArgUndefined | Some s \<Rightarrow> ArgString s)"

text \<open>
  \<^verbatim>\<open>
  styled.a.attrs<StyledBreadcrumbItemProps>(props => ({
    activeClassName: typeof props.to === 'string' ? 'selected' : '',
    className: classnames(props.selected && SELECTED_CLASS, props.className),
    'aria-current': props.selected ? 'page' : null
  }))
  \<close>
  \<open>None\<close> is the \<^verbatim>\<open>null\<close> of \<^verbatim>\<open>aria-current\<close>.
\<close>

definition BreadcrumbItem_attrs :: "breadcrumb_item_props \<Rightarrow> breadcrumb_item_attrs" where
  "BreadcrumbItem_attrs props =
     \<lparr>activeClassName = (case to props of Some (LocationPath p) \<Rightarrow> ''selected'' | _ \<Rightarrow> []),
      attrs_className = classnames [selected_and_class (selected props), className_arg (className props)],
      aria_current = (if selected props = Some True then Some ''page'' else None)\<rparr>"

section \<open>ButtonInvisible: the two style sheets\<close>

text \<open>
  A style sheet of a styled component, in the order of its template: declarations
  \<^verbatim>\<open>property: value;\<close> and nested rules \<^verbatim>\<open>selector { ... }\<close>.
\<close>

datatype css = Declaration string string | Nested string "css list"

text \<open>
  \<^verbatim>\<open>get\<close> (from \<^verbatim>\<open>../constants\<close>), \<^verbatim>\<open>buttonSystemProps\<close> (from \<^verbatim>\<open>./ButtonBase\<close>) and
  \<^verbatim>\<open>sx\<close> (from \<^verbatim>\<open>../sx\<close>) are parameters: \<open>get path\<close> reads the value of a theme token
  from the props, the other two turn the props into further rules.

  The component of \<^verbatim>\<open>src/src/Button/ButtonInvisible.tsx\<close>:
  \<^verbatim>\<open>
  color: ${get('colors.btn.text')};
  background-color: transparent;
  border: 0;
  border-radius: ${get('radii.2')};
  box-shadow: none;
  &:hover { background-color: ${get('colors.btn.hoverBg')}; }
  &:active { background-color: ${get('colors.btn.selectedBg')}; }
  &:disabled { background-color: transparent; color: ${get('colors.text.disabled')}; }
  ${buttonSystemProps};
  ${sx}
  \<close>
\<close>

definition ButtonInvisible ::
  "(string \<Rightarrow> 'p \<Rightarrow> string) \<Rightarrow> ('p \<Rightarrow> css list) \<Rightarrow> ('p \<Rightarrow> css list) \<Rightarrow> 'p \<Rightarrow> css list" where
  "ButtonInvisible get buttonSystemProps sx props =
     [Declaration ''color'' (get ''colors.btn.text'' props),
      Declaration ''background-color'' ''transparent'',
      Declaration ''border'' ''0'',
      Declaration ''border-radius'' (get ''radii.2'' props),
      Declaration ''box-shadow'' ''none'',
      Nested ''&:hover'' [Declaration ''background-color'' (get ''colors.btn.hoverBg'' props)],
      Nested ''&:active'' [Declaration ''background-color'' (get ''colors.btn.selectedBg'' props)],
      Nested ''&:disabled''
        [Declaration ''background-color'' ''transparent'',
         Declaration ''color'' (get ''colors.text.disabled'' props)]]
     @ buttonSystemProps props @ sx props"

text \<open>
  The component of \<^verbatim>\<open>src/unnamed/part_000\<close>:
  \<^verbatim>\<open>
  color: ${get('colors.accent.fg')};
  background-color: transparent;
  border: 0;
  border-radius: ${get('radii.2')};
  box-shadow: none;
  &:disabled { color: ${get('colors.fg.muted')}; }
  &:focus { box-shadow: ${get('shadows.btn.focusShadow')}; }
  ${buttonSystemProps};
  ${sx}
  \<close>
\<close>

definition ButtonInvisible_part_000 ::
  "(string \<Rightarrow> 'p \<Rightarrow> string) \<Rightarrow> ('p \<Rightarrow> css list) \<Rightarrow> ('p \<Rightarrow> css list) \<Rightarrow> 'p \<Rightarrow> css list" where
  "ButtonInvisible_part_000 get buttonSystemProps sx props =
     [Declaration ''color'' (get ''colors.accent.fg'' props),
      Declaration ''background-color'' ''transparent'',
      Declaration ''border'' ''0'',
      Declaration ''border-radius'' (get ''radii.2'' props),
      Declaration ''box-shadow'' ''none'',
      Nested ''&:disabled'' [Declaration ''color'' (get ''colors.fg.muted'' props)],
      Nested ''&:focus'' [Declaration ''box-shadow'' (get ''shadows.btn.focusShadow'' props)]]
     @ buttonSystemProps props @ sx props"

text \<open>
  The value a sheet gives a property in the base state: of several declarations of one
  property the last one applies.
\<close>

fun declared :: "string \<Rightarrow> css list \<Rightarrow> string option" where
  "declared p [] = None"
| "declared p (Declaration q v # rest) =
     (case declared p rest of
        Some w \<Rightarrow> Some w
      | None \<Rightarrow> if q = p then Some v else None)"
| "declared p (Nested sel body # rest) = declared p rest"

text \<open>The rules a sheet nests under a selector such as \<^verbatim>\<open>&:hover\<close>, in order.\<close>

fun nested_rules :: "string \<Rightarrow> css list \<Rightarrow> css list" where
  "nested_rules sel [] = []"
| "nested_rules sel (Declaration q v # rest) = nested_rules sel rest"
| "nested_rules sel (Nested sel' body # rest) =
     (if sel' = sel then body else []) @ nested_rules sel rest"

text \<open>
  A theme accessor in which the value of every token is its own path, and props that
  add no rule; the props themselves carry nothing.
\<close>

definition path_as_value :: "string \<Rightarrow> unit \<Rightarrow> string" where
  "path_as_value path props = path"

definition no_rules :: "unit \<Rightarrow> css list" where
  "no_rules props = []"

section \<open>The input's keyup handler\<close>

lemma js_index_last:
  "xs \<noteq> [] \<Longrightarrow> js_index xs (int (length xs) - 1) = Some (last xs)"
  by (cases xs rule: rev_cases) (simp_all add: js_index_def nth_append)

text \<open>
  C1. When the tokens list is not empty, a keyup on the text input with an empty value
  and the key Backspace calls \<^verbatim>\<open>onTokenRemove\<close> exactly once, with the id of the last
  element of the tokens list; a keyup with a non-empty value calls nothing, whatever the
  tokens list is.
\<close>

theorem handleInputKeyUp_removes_last:
  "(tokens \<noteq> [] \<and> el_value (currentTarget e) = [] \<and> key e = ''Backspace''
      \<longrightarrow> handleInputKeyUp tokens e = Inr [OnTokenRemove (token_id (last tokens))]) \<and>
   (el_value (currentTarget e) \<noteq> [] \<longrightarrow> handleInputKeyUp tokens e = Inr [])"
  by (simp add: handleInputKeyUp_def truthy_string_def js_index_last)

theorem handleInputKeyUp_removes_last_witness:
  "handleInputKeyUp
     [\<lparr>token_text = Some ''a'', token_id = IdNumber 1\<rparr>,
      \<lparr>token_text = None, token_id = IdString ''b''\<rparr>]
     \<lparr>event_type = ''keyup'', key = ''Backspace'', currentTarget = \<lparr>el_value = []\<rparr>,
      nativeEvent = \<lparr>native_type = ''keyup'', native_key = ''Backspace''\<rparr>\<rparr>
     = Inr [OnTokenRemove (IdString ''b'')] \<and>
   handleInputKeyUp
     [\<lparr>token_text = Some ''a'', token_id = IdNumber 1\<rparr>]
     \<lparr>event_type = ''keyup'', key = ''Backspace'', currentTarget = \<lparr>el_value = ''x''\<rparr>,
      nativeEvent = \<lparr>native_type = ''keyup'', native_key = ''Backspace''\<rparr>\<rparr>
     = Inr []"
  using handleInputKeyUp_removes_last
      [of "[\<lparr>token_text = Some ''a'', token_id = IdNumber 1\<rparr>,
            \<lparr>token_text = None, token_id = IdString ''b''\<rparr>]"
          "\<lparr>event_type = ''keyup'', key = ''Backspace'', currentTarget = \<lparr>el_value = []\<rparr>,
            nativeEvent = \<lparr>native_type = ''keyup'', native_key = ''Backspace''\<rparr>\<rparr>"]
    handleInputKeyUp_removes_last
      [of "[\<lparr>token_text = Some ''a'', token_id = IdNumber 1\<rparr>]"
          "\<lparr>event_type = ''keyup'', key = ''Backspace'', currentTarget = \<lparr>el_value = ''x''\<rparr>,
            nativeEvent = \<lparr>native_type = ''keyup'', native_key = ''Backspace''\<rparr>\<rparr>"]
  by simp

text \<open>
  Without the condition on the tokens list the first half fails: with no token, an
  empty value and the key Backspace, the handler does not return from a call of
  \<^verbatim>\<open>onTokenRemove\<close>.
\<close>

theorem handleInputKeyUp_no_last_token_counterexample:
  "el_value (currentTarget
      \<lparr>event_type = ''keyup'', key = ''Backspace'', currentTarget = \<lparr>el_value = []\<rparr>,
       nativeEvent = \<lparr>native_type = ''keyup'', native_key = ''Backspace''\<rparr>\<rparr>) = [] \<and>
   key \<lparr>event_type = ''keyup'', key = ''Backspace'', currentTarget = \<lparr>el_value = []\<rparr>,
        nativeEvent = \<lparr>native_type = ''keyup'', native_key = ''Backspace''\<rparr>\<rparr> = ''Backspace'' \<and>
   handleInputKeyUp []
     \<lparr>event_type = ''keyup'', key = ''Backspace'', currentTarget = \<lparr>el_value = []\<rparr>,
      nativeEvent = \<lparr>native_type = ''keyup'', native_key = ''Backspace''\<rparr>\<rparr>
     \<noteq> Inr [OnTokenRemove (token_id (last []))]"
  by (simp add: handleInputKeyUp_def truthy_string_def js_index_def)

text \<open>
  C2. With an empty tokens list, an empty input value and the key Backspace,
  \<^verbatim>\<open>tokens[tokens.length - 1]\<close> is \<^verbatim>\<open>undefined\<close> and reading its \<^verbatim>\<open>id\<close> throws: the
  handler is not total there.
\<close>

theorem handleInputKeyUp_empty_tokens_throws:
  "handleInputKeyUp []
     \<lparr>event_type = ''keyup'', key = ''Backspace'', currentTarget = \<lparr>el_value = []\<rparr>,
      nativeEvent = \<lparr>native_type = ''keyup'', native_key = ''Backspace''\<rparr>\<rparr>
     = Inl TypeError"
  by (simp add: handleInputKeyUp_def truthy_string_def js_index_def)

section \<open>Scrolling into the viewing area\<close>

text \<open>
  C3. When the child's top is at or below the container's top plus the margin and its
  bottom at or above the container's bottom minus the margin, the function makes no
  \<^verbatim>\<open>scrollTo\<close> call: the container comes back as it went in, its scroll position
  included.
\<close>

theorem scrollIntoViewingArea_in_view:
  "rect_top (boundingClientRect child) \<ge> rect_top (boundingClientRect container) + margin \<Longrightarrow>
   rect_bottom (boundingClientRect child) \<le> rect_bottom (boundingClientRect container) - margin \<Longrightarrow>
   scrollIntoViewingArea child container margin b = container \<and>
   scrollTo_calls (scrollIntoViewingArea child container margin b) = scrollTo_calls container \<and>
   scrollTop (scrollIntoViewingArea child container margin b) = scrollTop container"
  by (simp add: scrollIntoViewingArea_def Let_def leD)

theorem scrollIntoViewingArea_in_view_witness:
  "(10::int) + 8 \<le> 30 \<and> (40::int) \<le> 110 - 8 \<and>
   scrollIntoViewingArea
     \<lparr>boundingClientRect = \<lparr>rect_top = 30, rect_bottom = 40\<rparr>, scrollTop = 0, scrollTo_calls = []\<rparr>
     \<lparr>boundingClientRect = \<lparr>rect_top = 10, rect_bottom = 110\<rparr>, scrollTop = 25, scrollTo_calls = []\<rparr>
     (8::int) Smooth
   = \<lparr>boundingClientRect = \<lparr>rect_top = 10, rect_bottom = 110\<rparr>, scrollTop = 25, scrollTo_calls = []\<rparr>"
  using scrollIntoViewingArea_in_view
    [of "\<lparr>boundingClientRect = \<lparr>rect_top = 10, rect_bottom = 110\<rparr>, scrollTop = 25, scrollTo_calls = []\<rparr>"
        "8::int"
        "\<lparr>boundingClientRect = \<lparr>rect_top = 30, rect_bottom = 40\<rparr>, scrollTop = 0, scrollTo_calls = []\<rparr>"
        Smooth]
  by simp

text \<open>
  C4. When the child's top is above the container's top plus the margin, the function
  makes exactly one \<^verbatim>\<open>scrollTo\<close> call, with \<^verbatim>\<open>top\<close> equal to
  \<^verbatim>\<open>(childTop - containerTop + container.scrollTop) - margin\<close>, wherever the child's bottom
  is; otherwise, when the child's bottom is below the container's bottom minus the
  margin, it makes exactly one call, with \<^verbatim>\<open>top\<close> equal to
  \<^verbatim>\<open>(childBottom - containerBottom + container.scrollTop) + margin\<close>.
\<close>

theorem scrollIntoViewingArea_scrolls:
  "(rect_top (boundingClientRect child) < rect_top (boundingClientRect container) + margin \<longrightarrow>
      scrollTo_calls (scrollIntoViewingArea child container margin b) =
        scrollTo_calls container @
        [\<lparr>behavior = b,
          options_top = (rect_top (boundingClientRect child) - rect_top (boundingClientRect container)
                          + scrollTop container) - margin\<rparr>]) \<and>
   (\<not> rect_top (boundingClientRect child) < rect_top (boundingClientRect container) + margin \<and>
    rect_bottom (boundingClientRect child) > rect_bottom (boundingClientRect container) - margin \<longrightarrow>
      scrollTo_calls (scrollIntoViewingArea child container margin b) =
        scrollTo_calls container @
        [\<lparr>behavior = b,
          options_top = (rect_bottom (boundingClientRect child) - rect_bottom (boundingClientRect container)
                          + scrollTop container) + margin\<rparr>])"
  by (simp add: scrollIntoViewingArea_def Let_def scrollTo_def)

theorem scrollIntoViewingArea_scrolls_witness:
  "(12::int) < 10 + 8 \<and>
   scrollTo_calls (scrollIntoViewingArea
     \<lparr>boundingClientRect = \<lparr>rect_top = 12, rect_bottom = 30\<rparr>, scrollTop = 0, scrollTo_calls = []\<rparr>
     \<lparr>boundingClientRect = \<lparr>rect_top = 10, rect_bottom = 110\<rparr>, scrollTop = 25, scrollTo_calls = []\<rparr>
     (8::int) Smooth)
   = [\<lparr>behavior = Smooth, options_top = 19\<rparr>] \<and>
   \<not> (60::int) < 10 + 8 \<and> (130::int) > 110 - 8 \<and>
   scrollTo_calls (scrollIntoViewingArea
     \<lparr>boundingClientRect = \<lparr>rect_top = 60, rect_bottom = 130\<rparr>, scrollTop = 0, scrollTo_calls = []\<rparr>
     \<lparr>boundingClientRect = \<lparr>rect_top = 10, rect_bottom = 110\<rparr>, scrollTop = 25, scrollTo_calls = []\<rparr>
     (8::int) Auto)
   = [\<lparr>behavior = Auto, options_top = 53\<rparr>]"
  using scrollIntoViewingArea_scrolls
    [of "\<lparr>boundingClientRect = \<lparr>rect_top = 12, rect_bottom = 30\<rparr>, scrollTop = 0, scrollTo_calls = []\<rparr>"
        "\<lparr>boundingClientRect = \<lparr>rect_top = 10, rect_bottom = 110\<rparr>, scrollTop = 25, scrollTo_calls = []\<rparr>"
        "8::int" Smooth]
    scrollIntoViewingArea_scrolls
    [of "\<lparr>boundingClientRect = \<lparr>rect_top = 60, rect_bottom = 130\<rparr>, scrollTop = 0, scrollTo_calls = []\<rparr>"
        "\<lparr>boundingClientRect = \<lparr>rect_top = 10, rect_bottom = 110\<rparr>, scrollTop = 25, scrollTo_calls = []\<rparr>"
        "8::int" Auto]
  by simp

text \<open>
  C5. A child that is outside the viewing area on both ends (top 0 above 10 + 8, bottom
  100 below 50 - 8) is scrolled to all the same: the first branch is taken, and
  \<^verbatim>\<open>scrollTo\<close> is called with \<^verbatim>\<open>top\<close> = (0 - 10 + 20) - 8 = 2.
\<close>

theorem scrollIntoViewingArea_both_ends_scrolls:
  "scrollTo_calls (scrollIntoViewingArea
     \<lparr>boundingClientRect = \<lparr>rect_top = 0, rect_bottom = 100\<rparr>, scrollTop = 0, scrollTo_calls = []\<rparr>
     \<lparr>boundingClientRect = \<lparr>rect_top = 10, rect_bottom = 50\<rparr>, scrollTop = 20, scrollTo_calls = []\<rparr>
     (8::int) Smooth)
   = [\<lparr>behavior = Smooth, options_top = 2\<rparr>]"
  by (simp add: scrollIntoViewingArea_def Let_def scrollTo_def)

section \<open>The input's keypress handler\<close>

text \<open>
  C6. On a keypress with the key Enter while an active descendant is tracked, the
  handler prevents the default, stops the immediate propagation and dispatches
  \<^verbatim>\<open>new KeyboardEvent(event.type, event.nativeEvent)\<close> on the tracked element, in this
  order; with another key, or with no active descendant, it calls nothing.
\<close>

theorem onInputKeyPress_forwards_enter:
  "(key event = ''Enter'' \<and> activeDescendant = Some current \<longrightarrow>
      onInputKeyPress activeDescendant event =
        Inr [PreventDefault, StopImmediatePropagation,
             DispatchEvent current (KeyboardEvent (event_type event) (nativeEvent event))]) \<and>
   (key event \<noteq> ''Enter'' \<or> activeDescendant = None \<longrightarrow>
      onInputKeyPress activeDescendant event = Inr [])"
  by (auto simp add: onInputKeyPress_def split: option.splits)

theorem onInputKeyPress_forwards_enter_witness:
  "onInputKeyPress (Some (Element 3))
     \<lparr>event_type = ''keypress'', key = ''Enter'', currentTarget = \<lparr>el_value = ''ab''\<rparr>,
      nativeEvent = \<lparr>native_type = ''keypress'', native_key = ''Enter''\<rparr>\<rparr>
   = Inr [PreventDefault, StopImmediatePropagation,
          DispatchEvent (Element 3)
            (KeyboardEvent ''keypress'' \<lparr>native_type = ''keypress'', native_key = ''Enter''\<rparr>)] \<and>
   onInputKeyPress None
     \<lparr>event_type = ''keypress'', key = ''Enter'', currentTarget = \<lparr>el_value = ''ab''\<rparr>,
      nativeEvent = \<lparr>native_type = ''keypress'', native_key = ''Enter''\<rparr>\<rparr>
   = Inr []"
  using onInputKeyPress_forwards_enter
    [of "\<lparr>event_type = ''keypress'', key = ''Enter'', currentTarget = \<lparr>el_value = ''ab''\<rparr>,
          nativeEvent = \<lparr>native_type = ''keypress'', native_key = ''Enter''\<rparr>\<rparr>"
        "Some (Element 3)" "Element 3"]
    onInputKeyPress_forwards_enter
    [of "\<lparr>event_type = ''keypress'', key = ''Enter'', currentTarget = \<lparr>el_value = ''ab''\<rparr>,
          nativeEvent = \<lparr>native_type = ''keypress'', native_key = ''Enter''\<rparr>\<rparr>"
        None "Element 3"]
  by simp

section \<open>A token's keyup handler\<close>

text \<open>
  C7. A keyup delivered to a rendered token with id \<open>t\<close> (the text input is mounted
  with it, so the input ref holds it): with the key Backspace the handler calls
  \<^verbatim>\<open>onTokenRemove\<close> with \<open>t\<close>, with the key Escape it focuses the text input, with any
  other key it does neither. The two checks are made one after the other, each on its
  own: the calls are those of the first check followed by those of the second.
\<close>

theorem handleTokenKeyUp_checks:
  "handleTokenKeyUp (Some input) t e =
     Inr ((if key e = ''Backspace'' then [OnTokenRemove t] else []) @
          (if key e = ''Escape'' then [Focus input] else [])) \<and>
   (key e = ''Backspace'' \<longrightarrow> handleTokenKeyUp (Some input) t e = Inr [OnTokenRemove t]) \<and>
   (key e = ''Escape'' \<longrightarrow> handleTokenKeyUp (Some input) t e = Inr [Focus input]) \<and>
   (key e \<noteq> ''Backspace'' \<and> key e \<noteq> ''Escape'' \<longrightarrow> handleTokenKeyUp (Some input) t e = Inr [])"
  by (simp add: handleTokenKeyUp_def)

theorem handleTokenKeyUp_checks_witness:
  "handleTokenKeyUp (Some (Element 0)) (IdNumber 7)
     \<lparr>event_type = ''keyup'', key = ''Backspace'', currentTarget = \<lparr>el_value = []\<rparr>,
      nativeEvent = \<lparr>native_type = ''keyup'', native_key = ''Backspace''\<rparr>\<rparr>
   = Inr [OnTokenRemove (IdNumber 7)] \<and>
   handleTokenKeyUp (Some (Element 0)) (IdNumber 7)
     \<lparr>event_type = ''keyup'', key = ''Escape'', currentTarget = \<lparr>el_value = []\<rparr>,
      nativeEvent = \<lparr>native_type = ''keyup'', native_key = ''Escape''\<rparr>\<rparr>
   = Inr [Focus (Element 0)] \<and>
   handleTokenKeyUp (Some (Element 0)) (IdNumber 7)
     \<lparr>event_type = ''keyup'', key = ''a'', currentTarget = \<lparr>el_value = []\<rparr>,
      nativeEvent = \<lparr>native_type = ''keyup'', native_key = ''a''\<rparr>\<rparr>
   = Inr []"
  using handleTokenKeyUp_checks
    [of "Element 0" "IdNumber 7"
        "\<lparr>event_type = ''keyup'', key = ''Backspace'', currentTarget = \<lparr>el_value = []\<rparr>,
          nativeEvent = \<lparr>native_type = ''keyup'', native_key = ''Backspace''\<rparr>\<rparr>"]
    handleTokenKeyUp_checks
    [of "Element 0" "IdNumber 7"
        "\<lparr>event_type = ''keyup'', key = ''Escape'', currentTarget = \<lparr>el_value = []\<rparr>,
          nativeEvent = \<lparr>native_type = ''keyup'', native_key = ''Escape''\<rparr>\<rparr>"]
    handleTokenKeyUp_checks
    [of "Element 0" "IdNumber 7"
        "\<lparr>event_type = ''keyup'', key = ''a'', currentTarget = \<lparr>el_value = []\<rparr>,
          nativeEvent = \<lparr>native_type = ''keyup'', native_key = ''a''\<rparr>\<rparr>"]
  by simp

section \<open>The menu and the selected token\<close>

lemma handle_preserves:
  "menu_excludes_selection s \<Longrightarrow> menu_excludes_selection (handle s e)"
  by (cases e) (simp_all add: menu_excludes_selection_def handleInputFocus_def handleTokenFocus_def
      handleTokenBlur_def closeOptionList_def showOptionList_def)

lemma foldl_handle_invariant:
  "menu_excludes_selection s \<Longrightarrow> menu_excludes_selection (foldl handle s es)"
  by (induction es arbitrary: s) (simp_all add: handle_preserves)

lemma filter_isSelected:
  "selectedTokenIdx s = Some j \<Longrightarrow>
   filter (isSelected s) [0 ..< n] = (if j < n then [j] else [])"
  by (induction n) (auto simp add: isSelected_def)

lemma selected_tokens_le_one: "length (selected_tokens s tokens) \<le> 1"
  by (cases "selectedTokenIdx s")
     (simp_all add: selected_tokens_def filter_isSelected, simp add: isSelected_def)

lemma selected_tokens_menu:
  "menu_excludes_selection s \<Longrightarrow> showMenu s \<Longrightarrow> selected_tokens s tokens = []"
  by (simp add: menu_excludes_selection_def selected_tokens_def isSelected_def)

lemma selected_tokens_replicate:
  "selectedTokenIdx s = Some j \<Longrightarrow> selected_tokens s (replicate (Suc j) x) = [j]"
  by (simp add: selected_tokens_def filter_isSelected del: upt_Suc)

text \<open>
  C8. While the option list is shown no token index is selected. This holds in the initial
  state, every handler that sets state (input focus, token focus, token blur, closing the
  overlay) keeps it, as does every event, so it holds after any sequence of events. A
  state has this property exactly when, for every tokens list, at most one rendered
  token has \<^verbatim>\<open>isSelected\<close> and none has it while the overlay is shown.
\<close>

theorem menu_excludes_selection_invariant:
  "menu_excludes_selection initial_state \<and>
   (menu_excludes_selection s \<longrightarrow>
      menu_excludes_selection (handleInputFocus s) \<and>
      menu_excludes_selection (handleTokenFocus i s) \<and>
      menu_excludes_selection (handleTokenBlur s) \<and>
      menu_excludes_selection (closeOptionList s) \<and>
      menu_excludes_selection (handle s e)) \<and>
   menu_excludes_selection (foldl handle initial_state es) \<and>
   menu_excludes_selection s =
     (\<forall>tokens :: token list.
        length (selected_tokens s tokens) \<le> 1 \<and>
        (overlay_shown s \<longrightarrow> selected_tokens s tokens = []))"
proof -
  have init: "menu_excludes_selection initial_state"
    by (simp add: menu_excludes_selection_def initial_state_def)
  have handlers: "menu_excludes_selection (handleInputFocus s) \<and>
      menu_excludes_selection (handleTokenFocus i s) \<and>
      menu_excludes_selection (handleTokenBlur s) \<and>
      menu_excludes_selection (closeOptionList s) \<and>
      menu_excludes_selection (handle s e)" if "menu_excludes_selection s"
    using that handle_preserves [of s InputFocus] handle_preserves [of s "TokenFocus i"]
      handle_preserves [of s TokenBlur] handle_preserves [of s OverlayEscape]
      handle_preserves [of s e]
    by simp
  have run: "menu_excludes_selection (foldl handle initial_state es)"
    using init by (rule foldl_handle_invariant)
  have shown: "length (selected_tokens s tokens) \<le> 1 \<and>
      (overlay_shown s \<longrightarrow> selected_tokens s tokens = [])"
    if "menu_excludes_selection s" for tokens :: "token list"
    using that selected_tokens_le_one [of s tokens] selected_tokens_menu [of s tokens]
    by (simp add: overlay_shown_def)
  have conv: "menu_excludes_selection s"
    if all: "\<forall>tokens :: token list.
        length (selected_tokens s tokens) \<le> 1 \<and>
        (overlay_shown s \<longrightarrow> selected_tokens s tokens = [])"
  proof (cases "selectedTokenIdx s")
    case None
    then show ?thesis by (simp add: menu_excludes_selection_def)
  next
    case (Some j)
    have "selected_tokens s (replicate (Suc j) \<lparr>token_text = None, token_id = IdNumber 0\<rparr>) = [j]"
      using Some by (rule selected_tokens_replicate)
    with all have "\<not> overlay_shown s" by force
    then show ?thesis by (simp add: menu_excludes_selection_def overlay_shown_def)
  qed
  from init handlers run shown conv show ?thesis by blast
qed

theorem menu_excludes_selection_invariant_witness:
  "menu_excludes_selection \<lparr>selectedTokenIdx = None, showMenu = True\<rparr> \<and>
   showMenu \<lparr>selectedTokenIdx = None, showMenu = True\<rparr> \<and>
   menu_excludes_selection (handleTokenFocus 1 \<lparr>selectedTokenIdx = None, showMenu = True\<rparr>) \<and>
   menu_excludes_selection (handle \<lparr>selectedTokenIdx = None, showMenu = True\<rparr> TokenBlur) \<and>
   menu_excludes_selection (foldl handle initial_state [TokenFocus 1, InputFocus, TokenFocus 0]) \<and>
   overlay_shown \<lparr>selectedTokenIdx = None, showMenu = True\<rparr> \<and>
   selected_tokens \<lparr>selectedTokenIdx = None, showMenu = True\<rparr>
     [\<lparr>token_text = Some ''a'', token_id = IdNumber 1\<rparr>,
      \<lparr>token_text = None, token_id = IdString ''b''\<rparr>] = []"
  using menu_excludes_selection_invariant
    [of "\<lparr>selectedTokenIdx = None, showMenu = True\<rparr>" 1 TokenBlur
        "[TokenFocus 1, InputFocus, TokenFocus 0]"]
  by (simp add: menu_excludes_selection_def overlay_shown_def)

section \<open>The attributes of a breadcrumb item\<close>

lemma split_classes_space:
  "split_classes cur (a @ CHR '' '' # b) = split_classes cur a @ split_classes [] b"
  by (induction a arbitrary: cur) (simp_all add: is_ascii_whitespace_def)

lemma class_names_space: "class_names (a @ '' '' @ b) = class_names a @ class_names b"
  by (simp add: class_names_def split_classes_space)

lemma class_names_selected: "class_names ''selected'' = [''selected'']"
  by (simp add: class_names_def is_ascii_whitespace_def)

lemma class_names_Nil: "class_names [] = []"
  by (simp add: class_names_def)

lemma has_class_classnames_selected:
  "has_class ''selected'' (classnames [ArgString ''selected'', a])"
  by (cases a)
     (simp_all add: has_class_def classnames_def truthy_string_def class_names_selected
        class_names_space [of "''selected''", simplified])

lemma classnames_falsy_first:
  "x = ArgFalse \<or> x = ArgUndefined \<Longrightarrow>
   class_names (classnames [x, className_arg cn]) =
     (case cn of None \<Rightarrow> [] | Some s \<Rightarrow> class_names s)"
proof (cases cn)
  case None
  assume "x = ArgFalse \<or> x = ArgUndefined"
  with None show ?thesis
    by (auto simp add: classnames_def className_arg_def class_names_Nil)
next
  case (Some s)
  assume "x = ArgFalse \<or> x = ArgUndefined"
  with Some show ?thesis
    by (cases "s = []")
       (auto simp add: classnames_def className_arg_def truthy_string_def class_names_Nil)
qed

lemma has_class_classnames_unselected:
  "x = ArgFalse \<or> x = ArgUndefined \<Longrightarrow>
   has_class c (classnames [x, className_arg cn]) =
     (case cn of None \<Rightarrow> False | Some s \<Rightarrow> has_class c s)"
  by (cases cn) (simp_all add: has_class_def classnames_falsy_first)

text \<open>
  C9. \<^verbatim>\<open>aria-current\<close> is \<^verbatim>\<open>'page'\<close> exactly when the \<^verbatim>\<open>selected\<close> prop is
  true, and null otherwise. The class \<^verbatim>\<open>selected\<close> is among the class names of the
  computed \<^verbatim>\<open>className\<close> exactly when the \<^verbatim>\<open>selected\<close> prop is true or the
  \<^verbatim>\<open>className\<close> the caller passed has it already.
\<close>

theorem BreadcrumbItem_selected_attrs:
  "aria_current (BreadcrumbItem_attrs props) = (if selected props = Some True then Some ''page'' else None) \<and>
   has_class ''selected'' (attrs_className (BreadcrumbItem_attrs props)) =
     (selected props = Some True \<or>
      (case className props of None \<Rightarrow> False | Some s \<Rightarrow> has_class ''selected'' s))"
proof (cases "selected props = Some True")
  case True
  then show ?thesis
    by (simp add: BreadcrumbItem_attrs_def selected_and_class_def SELECTED_CLASS_def
        has_class_classnames_selected)
next
  case False
  then have "selected_and_class (selected props) = ArgFalse \<or>
             selected_and_class (selected props) = ArgUndefined"
    by (auto simp add: selected_and_class_def split: option.splits bool.splits)
  from has_class_classnames_unselected [OF this] False show ?thesis
    by (simp add: BreadcrumbItem_attrs_def)
qed

text \<open>
  Without the caller's \<^verbatim>\<open>className\<close> the second half fails: an item that is not selected
  and is given \<^verbatim>\<open>className="selected"\<close> has the class.
\<close>

theorem BreadcrumbItem_selected_class_counterexample:
  "\<not> (has_class ''selected''
        (attrs_className (BreadcrumbItem_attrs
           \<lparr>to = None, selected = Some False, className = Some ''selected''\<rparr>))
      = (selected \<lparr>to = None, selected = Some False, className = Some ''selected''\<rparr> = Some True))"
  by (simp add: BreadcrumbItem_attrs_def selected_and_class_def className_arg_def classnames_def
      truthy_string_def has_class_def class_names_selected)

section \<open>The two ButtonInvisible style sheets\<close>

lemma declared_append:
  "declared p (xs @ ys) = (case declared p ys of Some w \<Rightarrow> Some w | None \<Rightarrow> declared p xs)"
  by (induction p xs rule: declared.induct) (auto split: option.splits)

lemma nested_rules_append:
  "nested_rules sel (xs @ ys) = nested_rules sel xs @ nested_rules sel ys"
  by (induction sel xs rule: nested_rules.induct) auto

text \<open>
  C10. The two sheets are not equivalent. For every theme accessor and all props they give
  the same base \<^verbatim>\<open>background-color\<close>, \<^verbatim>\<open>border\<close>, \<^verbatim>\<open>border-radius\<close> and
  \<^verbatim>\<open>box-shadow\<close>. The base \<^verbatim>\<open>color\<close> is, unless \<^verbatim>\<open>buttonSystemProps\<close> or \<^verbatim>\<open>sx\<close>
  declares one, the token \<^verbatim>\<open>colors.btn.text\<close> in the sheet of
  \<^verbatim>\<open>src/src/Button/ButtonInvisible.tsx\<close> and the token \<^verbatim>\<open>colors.accent.fg\<close> in the sheet
  of \<^verbatim>\<open>part_000\<close>. The first sheet has a hover and an active background in front of what
  the second has for these states, the second has a focus box-shadow in front of what
  the first has, and the disabled rules are a transparent background and the color
  \<^verbatim>\<open>colors.text.disabled\<close> in the first, the color \<^verbatim>\<open>colors.fg.muted\<close> in the second,
  each in front of the same rules of \<^verbatim>\<open>buttonSystemProps\<close> and \<^verbatim>\<open>sx\<close>. So the hover, active,
  focus and disabled rules of the two sheets are different for every theme accessor and
  all props.
\<close>

theorem ButtonInvisible_versions_compared:
  "declared ''background-color'' (ButtonInvisible get buttonSystemProps sx props) =
     declared ''background-color'' (ButtonInvisible_part_000 get buttonSystemProps sx props) \<and>
   declared ''border'' (ButtonInvisible get buttonSystemProps sx props) =
     declared ''border'' (ButtonInvisible_part_000 get buttonSystemProps sx props) \<and>
   declared ''border-radius'' (ButtonInvisible get buttonSystemProps sx props) =
     declared ''border-radius'' (ButtonInvisible_part_000 get buttonSystemProps sx props) \<and>
   declared ''box-shadow'' (ButtonInvisible get buttonSystemProps sx props) =
     declared ''box-shadow'' (ButtonInvisible_part_000 get buttonSystemProps sx props) \<and>
   declared ''color'' (ButtonInvisible get buttonSystemProps sx props) =
     (case declared ''color'' (buttonSystemProps props @ sx props) of
        Some w \<Rightarrow> Some w
      | None \<Rightarrow> Some (get ''colors.btn.text'' props)) \<and>
   declared ''color'' (ButtonInvisible_part_000 get buttonSystemProps sx props) =
     (case declared ''color'' (buttonSystemProps props @ sx props) of
        Some w \<Rightarrow> Some w
      | None \<Rightarrow> Some (get ''colors.accent.fg'' props)) \<and>
   nested_rules ''&:hover'' (ButtonInvisible get buttonSystemProps sx props) =
     Declaration ''background-color'' (get ''colors.btn.hoverBg'' props) #
     nested_rules ''&:hover'' (ButtonInvisible_part_000 get buttonSystemProps sx props) \<and>
   nested_rules ''&:active'' (ButtonInvisible get buttonSystemProps sx props) =
     Declaration ''background-color'' (get ''colors.btn.selectedBg'' props) #
     nested_rules ''&:active'' (ButtonInvisible_part_000 get buttonSystemProps sx props) \<and>
   nested_rules ''&:focus'' (ButtonInvisible_part_000 get buttonSystemProps sx props) =
     Declaration ''box-shadow'' (get ''shadows.btn.focusShadow'' props) #
     nested_rules ''&:focus'' (ButtonInvisible get buttonSystemProps sx props) \<and>
   nested_rules ''&:disabled'' (ButtonInvisible get buttonSystemProps sx props) =
     [Declaration ''background-color'' ''transparent'',
      Declaration ''color'' (get ''colors.text.disabled'' props)] @
     nested_rules ''&:disabled'' (buttonSystemProps props @ sx props) \<and>
   nested_rules ''&:disabled'' (ButtonInvisible_part_000 get buttonSystemProps sx props) =
     [Declaration ''color'' (get ''colors.fg.muted'' props)] @
     nested_rules ''&:disabled'' (buttonSystemProps props @ sx props) \<and>
   nested_rules ''&:hover'' (ButtonInvisible get buttonSystemProps sx props) \<noteq>
     nested_rules ''&:hover'' (ButtonInvisible_part_000 get buttonSystemProps sx props) \<and>
   nested_rules ''&:active'' (ButtonInvisible get buttonSystemProps sx props) \<noteq>
     nested_rules ''&:active'' (ButtonInvisible_part_000 get buttonSystemProps sx props) \<and>
   nested_rules ''&:focus'' (ButtonInvisible get buttonSystemProps sx props) \<noteq>
     nested_rules ''&:focus'' (ButtonInvisible_part_000 get buttonSystemProps sx props) \<and>
   nested_rules ''&:disabled'' (ButtonInvisible get buttonSystemProps sx props) \<noteq>
     nested_rules ''&:disabled'' (ButtonInvisible_part_000 get buttonSystemProps sx props)"
  unfolding ButtonInvisible_def ButtonInvisible_part_000_def
  by (simp add: declared_append nested_rules_append split: option.splits)

text \<open>
  With a theme accessor that gives every token its own path and props that add no rule,
  the two sheets are different as wholes, in the base color and in each of the four
  state rules.
\<close>

theorem ButtonInvisible_versions_differ:
  "ButtonInvisible path_as_value no_rules no_rules () \<noteq>
     ButtonInvisible_part_000 path_as_value no_rules no_rules () \<and>
   declared ''color'' (ButtonInvisible path_as_value no_rules no_rules ()) =
     Some ''colors.btn.text'' \<and>
   declared ''color'' (ButtonInvisible_part_000 path_as_value no_rules no_rules ()) =
     Some ''colors.accent.fg'' \<and>
   nested_rules ''&:hover'' (ButtonInvisible path_as_value no_rules no_rules ()) =
     [Declaration ''background-color'' ''colors.btn.hoverBg''] \<and>
   nested_rules ''&:hover'' (ButtonInvisible_part_000 path_as_value no_rules no_rules ()) = [] \<and>
   nested_rules ''&:active'' (ButtonInvisible path_as_value no_rules no_rules ()) =
     [Declaration ''background-color'' ''colors.btn.selectedBg''] \<and>
   nested_rules ''&:active'' (ButtonInvisible_part_000 path_as_value no_rules no_rules ()) = [] \<and>
   nested_rules ''&:focus'' (ButtonInvisible path_as_value no_rules no_rules ()) = [] \<and>
   nested_rules ''&:focus'' (ButtonInvisible_part_000 path_as_value no_rules no_rules ()) =
     [Declaration ''box-shadow'' ''shadows.btn.focusShadow''] \<and>
   nested_rules ''&:disabled'' (ButtonInvisible path_as_value no_rules no_rules ()) =
     [Declaration ''background-color'' ''transparent'',
      Declaration ''color'' ''colors.text.disabled''] \<and>
   nested_rules ''&:disabled'' (ButtonInvisible_part_000 path_as_value no_rules no_rules ()) =
     [Declaration ''color'' ''colors.fg.muted'']"
  by (simp add: ButtonInvisible_def ButtonInvisible_part_000_def path_as_value_def no_rules_def)

end
